theory Spec2Isabelle
  imports Complex_Main "HOL-Library.Word"
begin

section \<open>ilqgames: strategy containers, the sign function, the reachability example\<close>

text \<open>
  A shallow embedding of \<^verbatim>\<open>include/ilqgames/utils/types.h\<close>,
  \<^verbatim>\<open>include/ilqgames/utils/strategy.h\<close> and the constants of
  \<^verbatim>\<open>src/one_player_reachability_example.cpp\<close>.

  Conventions of the embedding:
  \<^item> \<^verbatim>\<open>size_t\<close> counts and indices are \<open>nat\<close>: every count that occurs is the size of
    an object held in memory;
  \<^item> \<^verbatim>\<open>Dimension\<close> is \<^verbatim>\<open>int\<close> in the source and \<open>int\<close> here; a negative dimension
    trips an assertion of Eigen, which is a result \<open>Inl EigenAssertion\<close>;
  \<^item> the operations on vectors and matrices are written once, for any type of scalars
    with a zero, a sum, a difference, a negation and a product. The scalars of the code
    are \<^verbatim>\<open>float\<close>: the type \<open>fpval\<close> with the arithmetic of IEEE 754 in single
    precision (every result rounded to nearest, overflow to an infinity, NaN where the
    standard says so). The scalars \<open>real\<close> are exact arithmetic, for what holds "to
    floating-point tolerance";
  \<^item> the constants of the example are rounded as the compiler rounds them, to
    \<^verbatim>\<open>double\<close> and to \<^verbatim>\<open>float\<close>, since the number of time steps depends on it;
    they are finite, and they and the initial state that holds them are written as the
    real numbers they are;
  \<^item> every read outside a container and every failed assertion is a value of
    \<open>error\<close>, never an unspecified HOL value.
\<close>

subsection \<open>types.h: sgn\<close>

text \<open>
  \<^verbatim>\<open>
  template <typename T> T sgn(T x, std::false_type is_signed) { return T(0) < x; }
  template <typename T> T sgn(T x, std::true_type is_signed) {
    return (T(0) < x) - (x < T(0));
  }
  \<close>
  For an integer type \<open>T\<close> of \<open>LENGTH('a)\<close> bits the value is an \<open>'a word\<close>. The
  unsigned overload compares unsigned and converts the \<^verbatim>\<open>bool\<close> to \<open>T\<close>. The signed
  overload compares signed, subtracts the two \<^verbatim>\<open>bool\<close>s as \<^verbatim>\<open>int\<close> and converts the
  difference to \<open>T\<close>.
\<close>

definition sgn_unsigned :: "'a::len word \<Rightarrow> 'a word" where
  "sgn_unsigned x = of_bool (0 < x)"

definition sgn_signed :: "'a::len word \<Rightarrow> 'a word" where
  "sgn_signed x = word_of_int (of_bool (0 <s x) - of_bool (x <s 0))"

text \<open>
  \<open>float\<close>, \<open>double\<close> and \<open>long double\<close> are signed arithmetic types too. A floating
  value is a NaN, an infinity or a finite number (the two zeros compare equal and are
  one value here); every comparison with a NaN is false.
\<close>

datatype fpval = FNaN | FNegInf | FFinite real | FPosInf

fun fp_less :: "fpval \<Rightarrow> fpval \<Rightarrow> bool" where
  "fp_less FNaN _ = False"
| "fp_less _ FNaN = False"
| "fp_less FNegInf FNegInf = False"
| "fp_less FNegInf _ = True"
| "fp_less (FFinite a) (FFinite b) = (a < b)"
| "fp_less (FFinite a) FPosInf = True"
| "fp_less (FFinite a) FNegInf = False"
| "fp_less FPosInf _ = False"

fun fp_eq :: "fpval \<Rightarrow> fpval \<Rightarrow> bool" where
  "fp_eq FNaN _ = False"
| "fp_eq _ FNaN = False"
| "fp_eq a b = (a = b)"

definition sgn_floating :: "fpval \<Rightarrow> fpval" where
  "sgn_floating x =
     FFinite (of_int (of_bool (fp_less (FFinite 0) x) - of_bool (fp_less x (FFinite 0))))"

subsection \<open>Results and errors\<close>

text \<open>
  What the C++ leaves undefined or aborts on is a value: \<open>EigenAssertion\<close> is a failed
  \<^verbatim>\<open>eigen_assert\<close> (a negative dimension, an index outside a vector, operands of
  different sizes), \<open>OutOfRange\<close> is a read outside a \<^verbatim>\<open>std::vector\<close> or outside the
  buffer a view points into (\<^verbatim>\<open>operator[]\<close> and \<^verbatim>\<open>front()\<close> do not check),
  \<open>CheckFailed\<close> is a failed glog \<^verbatim>\<open>CHECK_EQ\<close>, \<open>SignedOverflow\<close> is an \<^verbatim>\<open>int\<close>
  product that does not fit 32 bits.
\<close>

datatype error = EigenAssertion | OutOfRange | CheckFailed | SignedOverflow

definition andThen :: "error + 'a \<Rightarrow> ('a \<Rightarrow> error + 'b) \<Rightarrow> error + 'b" where
  "andThen r f = (case r of Inl e \<Rightarrow> Inl e | Inr v \<Rightarrow> f v)"

definition elem_at :: "'a list \<Rightarrow> nat \<Rightarrow> error + 'a" where
  "elem_at vs i = (if i < length vs then Inr (vs ! i) else Inl OutOfRange)"

definition INT_MAX :: int where
  "INT_MAX = 2147483647"

subsection \<open>Eigen: dynamic vectors and matrices\<close>

text \<open>
  \<^verbatim>\<open>VectorXf\<close> is the list of its coefficients. \<^verbatim>\<open>MatrixXf\<close> has its numbers of rows
  and columns and its coefficients in column-major order, Eigen's default: the
  coefficient of row \<open>i\<close> and column \<open>j\<close> is at \<open>i + j * rows\<close>. The type \<open>'a\<close> is the type
  of the scalars.
\<close>

type_synonym 'a VectorXf = "'a list"

record 'a MatrixXf =
  rows :: nat
  cols :: nat
  coeffs :: "'a list"

definition coeff :: "'a MatrixXf \<Rightarrow> nat \<Rightarrow> nat \<Rightarrow> 'a" where
  "coeff M i j = coeffs M ! (i + j * rows M)"

definition size_of :: "'a MatrixXf \<Rightarrow> nat" where
  "size_of M = rows M * cols M"

definition MatrixXf_default :: "'a MatrixXf" where
  "MatrixXf_default = \<lparr>rows = 0, cols = 0, coeffs = []\<rparr>"

definition MatrixXf_Zero :: "int \<Rightarrow> int \<Rightarrow> error + 'a::zero MatrixXf" where
  "MatrixXf_Zero r c =
     (if r < 0 \<or> c < 0 then Inl EigenAssertion
      else Inr \<lparr>rows = nat r, cols = nat c, coeffs = replicate (nat r * nat c) 0\<rparr>)"

definition VectorXf_Zero :: "int \<Rightarrow> error + 'a::zero VectorXf" where
  "VectorXf_Zero n = (if n < 0 then Inl EigenAssertion else Inr (replicate (nat n) 0))"

definition mat_neg :: "'a::uminus MatrixXf \<Rightarrow> 'a MatrixXf" where
  "mat_neg M = M\<lparr>coeffs := map uminus (coeffs M)\<rparr>"

text \<open>
  Coefficient \<open>i\<close> of the product of a matrix and a vector: the products of the row with
  the vector, added one column after the other to a sum that starts at zero. (The order
  of the additions is Eigen's and not written in the sources. It does not show in exact
  arithmetic, nor where the matrix has one column or is zero.)
\<close>

definition row_dot :: "'a::{zero,plus,times} MatrixXf \<Rightarrow> 'a VectorXf \<Rightarrow> nat \<Rightarrow> 'a" where
  "row_dot M v i = foldl (\<lambda>acc j. acc + coeff M i j * v ! j) 0 [0..<cols M]"

definition mat_vec :: "'a::{zero,plus,times} MatrixXf \<Rightarrow> 'a VectorXf \<Rightarrow> error + 'a VectorXf" where
  "mat_vec M v =
     (if cols M \<noteq> length v then Inl EigenAssertion
      else Inr (map (row_dot M v) [0..<rows M]))"

definition vec_add :: "'a::plus VectorXf \<Rightarrow> 'a VectorXf \<Rightarrow> error + 'a VectorXf" where
  "vec_add a b =
     (if length a \<noteq> length b then Inl EigenAssertion else Inr (map2 (+) a b))"

definition vec_sub :: "'a::minus VectorXf \<Rightarrow> 'a VectorXf \<Rightarrow> error + 'a VectorXf" where
  "vec_sub a b =
     (if length a \<noteq> length b then Inl EigenAssertion else Inr (map2 (-) a b))"

subsection \<open>Views into the primal buffer\<close>

text \<open>
  \<^verbatim>\<open>Eigen::Map<MatrixXf>(ptr, rows, cols)\<close> and the \<^verbatim>\<open>Eigen::Ref<VectorXf>\<close> made of
  \<^verbatim>\<open>primals.segment(start, n)\<close> own nothing: they are an offset into \<^verbatim>\<open>primals\<close> and a
  shape. The buffer is passed to whatever reads through a view.
\<close>

record MapView =
  data :: nat
  m_rows :: nat
  m_cols :: nat

record RefView =
  start :: nat
  len :: nat



definition read_Map :: "'a VectorXf \<Rightarrow> MapView \<Rightarrow> error + 'a MatrixXf" where
  "read_Map primals v =
     (if data v + m_rows v * m_cols v \<le> length primals
      then Inr \<lparr>rows = m_rows v, cols = m_cols v,
                coeffs = take (m_rows v * m_cols v) (drop (data v) primals)\<rparr>
      else Inl OutOfRange)"

definition read_Ref :: "'a VectorXf \<Rightarrow> RefView \<Rightarrow> error + 'a VectorXf" where
  "read_Ref primals v =
     (if start v + len v \<le> length primals
      then Inr (take (len v) (drop (start v) primals))
      else Inl OutOfRange)"

subsection \<open>strategy.h: StrategyRef\<close>

record StrategyRef =
  ref_Ps :: "MapView list"
  ref_alphas :: "RefView list"

text \<open>
  \<^verbatim>\<open>
  size_t primal_idx = initial_idx;
  for (size_t kk = 0; kk < horizon; kk++) {
    Ps.emplace_back(&primals(primal_idx), xdim, udim);
    primal_idx += xdim * udim;
    alphas.emplace_back(primals.segment(primal_idx, udim));
    primal_idx += udim;
  }
  \<close>
  \<^verbatim>\<open>primals(primal_idx)\<close> asserts that the index is inside the vector; the \<^verbatim>\<open>Map\<close>
  constructor takes the pointer, then the number of rows, then the number of columns,
  and asserts that both are not negative; \<^verbatim>\<open>xdim * udim\<close> is a product of \<^verbatim>\<open>int\<close>;
  \<^verbatim>\<open>segment\<close> asserts that the segment lies inside the vector.
\<close>

function StrategyRef_loop ::
  "nat \<Rightarrow> nat \<Rightarrow> int \<Rightarrow> int \<Rightarrow> 'a VectorXf \<Rightarrow> nat \<Rightarrow> StrategyRef \<Rightarrow> error + StrategyRef" where
  "StrategyRef_loop kk horizon xdim udim primals primal_idx r =
     (if kk < horizon then
        if \<not> primal_idx < length primals then Inl EigenAssertion
        else if xdim < 0 \<or> udim < 0 then Inl EigenAssertion
        else if INT_MAX < xdim * udim then Inl SignedOverflow
        else if length primals < primal_idx + nat (xdim * udim) + nat udim
          then Inl EigenAssertion
        else StrategyRef_loop (Suc kk) horizon xdim udim primals
               (primal_idx + nat (xdim * udim) + nat udim)
               (r\<lparr>ref_Ps := ref_Ps r @
                     [\<lparr>data = primal_idx, m_rows = nat xdim, m_cols = nat udim\<rparr>],
                   ref_alphas := ref_alphas r @
                     [\<lparr>start = primal_idx + nat (xdim * udim), len = nat udim\<rparr>]\<rparr>)
      else Inr r)"
  by pat_completeness auto
termination
  by (relation "measure (\<lambda>(kk, horizon, _). horizon - kk)") auto

definition StrategyRef_ctor ::
  "nat \<Rightarrow> int \<Rightarrow> int \<Rightarrow> 'a VectorXf \<Rightarrow> nat \<Rightarrow> error + StrategyRef" where
  "StrategyRef_ctor horizon xdim udim primals initial_idx =
     StrategyRef_loop 0 horizon xdim udim primals initial_idx
       \<lparr>ref_Ps = [], ref_alphas = []\<rparr>"

text \<open>
  \<^verbatim>\<open>return -Ps[time_index] * x - alphas[time_index];\<close>
\<close>

definition StrategyRef_call ::
  "'a::{zero,plus,minus,uminus,times} VectorXf \<Rightarrow> StrategyRef \<Rightarrow> nat \<Rightarrow> 'a VectorXf \<Rightarrow>
     error + 'a VectorXf" where
  "StrategyRef_call primals r time_index x =
     andThen (elem_at (ref_Ps r) time_index) (\<lambda>pv.
     andThen (read_Map primals pv) (\<lambda>P.
     andThen (mat_vec (mat_neg P) x) (\<lambda>Px.
     andThen (elem_at (ref_alphas r) time_index) (\<lambda>av.
     andThen (read_Ref primals av) (\<lambda>alpha.
     vec_sub Px alpha)))))"

text \<open>
  \<^verbatim>\<open>
  const size_t horizon = Ps.size();
  CHECK_EQ(horizon, alphas.size());
  return horizon * (Ps.front().size() + alphas.front().size());
  \<close>
  \<^verbatim>\<open>front()\<close> of an empty \<^verbatim>\<open>std::vector\<close> is undefined.
\<close>

definition StrategyRef_NumVariables :: "StrategyRef \<Rightarrow> error + nat" where
  "StrategyRef_NumVariables r =
     (let horizon = length (ref_Ps r) in
      if horizon \<noteq> length (ref_alphas r) then Inl CheckFailed
      else case ref_Ps r of [] \<Rightarrow> Inl OutOfRange | P # _ \<Rightarrow>
        (case ref_alphas r of [] \<Rightarrow> Inl OutOfRange | a # _ \<Rightarrow>
           Inr (horizon * (m_rows P * m_cols P + len a))))"

subsection \<open>operating\_point.h: OperatingPointRef\<close>

text \<open>
  Modelled from the spec: the declaration of \<^verbatim>\<open>OperatingPointRef\<close> is in
  \<^verbatim>\<open>operating_point.h\<close>, which is not among the sources. An operating point is a
  sequence of joint states and, for each time step, one control vector per player;
  \<^verbatim>\<open>strategy.h\<close> reads it as \<^verbatim>\<open>op.xs[kk]\<close> and \<^verbatim>\<open>op.us[kk][player_idx]\<close>.
\<close>

record 'a OperatingPointRef =
  xs :: "'a VectorXf list"
  us :: "'a VectorXf list list"

subsection \<open>strategy.h: Strategy\<close>

record 'a Strategy =
  Ps :: "'a MatrixXf list"
  alphas :: "'a VectorXf list"

text \<open>
  \<^verbatim>\<open>
  Strategy(size_t horizon, Dimension xdim, Dimension udim)
      : Ps(horizon), alphas(horizon) {
    for (size_t ii = 0; ii < horizon; ii++) {
      Ps[ii] = MatrixXf::Zero(udim, xdim);
      alphas[ii] = VectorXf::Zero(udim);
    }
  }
  \<close>
\<close>

function Strategy_loop ::
  "nat \<Rightarrow> nat \<Rightarrow> int \<Rightarrow> int \<Rightarrow> 'a::zero Strategy \<Rightarrow> error + 'a Strategy" where
  "Strategy_loop ii horizon xdim udim s =
     (if ii < horizon then
        case MatrixXf_Zero udim xdim of Inl e \<Rightarrow> Inl e | Inr Z \<Rightarrow>
        (case VectorXf_Zero udim of Inl e \<Rightarrow> Inl e | Inr z \<Rightarrow>
           Strategy_loop (Suc ii) horizon xdim udim
             (s\<lparr>Ps := (Ps s)[ii := Z], alphas := (alphas s)[ii := z]\<rparr>))
      else Inr s)"
  by pat_completeness auto
termination
  by (relation "measure (\<lambda>(ii, horizon, _). horizon - ii)") auto

definition Strategy_ctor :: "nat \<Rightarrow> int \<Rightarrow> int \<Rightarrow> error + 'a::zero Strategy" where
  "Strategy_ctor horizon xdim udim =
     Strategy_loop 0 horizon xdim udim
       \<lparr>Ps = replicate horizon MatrixXf_default, alphas = replicate horizon []\<rparr>"

text \<open>
  \<^verbatim>\<open>
  Strategy(const StrategyRef& other, const OperatingPointRef& op,
           PlayerIndex player_idx)
      : Ps(other.Ps.size()), alphas(other.alphas.size()) {
    for (size_t kk = 0; kk < Ps.size(); kk++) {
      Ps[kk] = other.Ps[kk];
      alphas[kk] =
          other.alphas[kk] + op.us[kk][player_idx] - Ps[kk] * op.xs[kk];
    }
  }
  \<close>
  The body of the loop computes the two values it stores; the sum, the product and the
  difference each assert that their operands fit. \<open>alphas\<close> has a slot \<open>kk\<close> exactly
  where \<open>other.alphas\<close> has one, and the body reads that one before the loop writes.
\<close>

definition Strategy_of_ref_body ::
  "'a::{zero,plus,minus,times} VectorXf \<Rightarrow> StrategyRef \<Rightarrow> 'a OperatingPointRef \<Rightarrow> nat \<Rightarrow> nat \<Rightarrow>
     error + 'a MatrixXf \<times> 'a VectorXf"
  where
  "Strategy_of_ref_body primals other op player_idx kk =
     andThen (elem_at (ref_Ps other) kk) (\<lambda>pv.
     andThen (read_Map primals pv) (\<lambda>P.
     andThen (elem_at (ref_alphas other) kk) (\<lambda>av.
     andThen (read_Ref primals av) (\<lambda>alpha.
     andThen (elem_at (us op) kk) (\<lambda>u_k.
     andThen (elem_at u_k player_idx) (\<lambda>u.
     andThen (vec_add alpha u) (\<lambda>alpha_u.
     andThen (elem_at (xs op) kk) (\<lambda>x.
     andThen (mat_vec P x) (\<lambda>Px.
     andThen (vec_sub alpha_u Px) (\<lambda>alpha_new.
     Inr (P, alpha_new)))))))))))"

function Strategy_of_ref_loop ::
  "nat \<Rightarrow> 'a::{zero,plus,minus,times} VectorXf \<Rightarrow> StrategyRef \<Rightarrow> 'a OperatingPointRef \<Rightarrow> nat \<Rightarrow>
     'a Strategy \<Rightarrow> error + 'a Strategy"
  where
  "Strategy_of_ref_loop kk primals other op player_idx s =
     (if kk < length (Ps s) then
        case Strategy_of_ref_body primals other op player_idx kk of
          Inl e \<Rightarrow> Inl e
        | Inr (P, alpha_new) \<Rightarrow>
            Strategy_of_ref_loop (Suc kk) primals other op player_idx
              (s\<lparr>Ps := (Ps s)[kk := P], alphas := (alphas s)[kk := alpha_new]\<rparr>)
      else Inr s)"
  by pat_completeness auto
termination
  by (relation "measure (\<lambda>(kk, _, _, _, _, s). length (Ps s) - kk)") auto

definition Strategy_of_ref ::
  "'a::{zero,plus,minus,times} VectorXf \<Rightarrow> StrategyRef \<Rightarrow> 'a OperatingPointRef \<Rightarrow> nat \<Rightarrow>
     error + 'a Strategy" where
  "Strategy_of_ref primals other op player_idx =
     Strategy_of_ref_loop 0 primals other op player_idx
       \<lparr>Ps = replicate (length (ref_Ps other)) MatrixXf_default,
        alphas = replicate (length (ref_alphas other)) []\<rparr>"

text \<open>
  \<^verbatim>\<open>return u_ref - Ps[time_index] * delta_x - alphas[time_index];\<close>
\<close>

definition Strategy_call ::
  "'a::{zero,plus,minus,times} Strategy \<Rightarrow> nat \<Rightarrow> 'a VectorXf \<Rightarrow> 'a VectorXf \<Rightarrow>
     error + 'a VectorXf" where
  "Strategy_call s time_index delta_x u_ref =
     andThen (elem_at (Ps s) time_index) (\<lambda>P.
     andThen (mat_vec P delta_x) (\<lambda>Px.
     andThen (vec_sub u_ref Px) (\<lambda>d.
     andThen (elem_at (alphas s) time_index) (\<lambda>alpha.
     vec_sub d alpha))))"

definition Strategy_NumVariables :: "'a Strategy \<Rightarrow> error + nat" where
  "Strategy_NumVariables s =
     (let horizon = length (Ps s) in
      if horizon \<noteq> length (alphas s) then Inl CheckFailed
      else case Ps s of [] \<Rightarrow> Inl OutOfRange | P # _ \<Rightarrow>
        (case alphas s of [] \<Rightarrow> Inl OutOfRange | a # _ \<Rightarrow>
           Inr (horizon * (size_of P + length a))))"

subsection \<open>Single and double precision\<close>

text \<open>
  \<^verbatim>\<open>float\<close> and \<^verbatim>\<open>double\<close> are the binary formats of IEEE 754 with 24 and 53 bits of
  precision and least exponents \<open>-126\<close> and \<open>-1022\<close>. A literal and the result of every
  operation are rounded to the nearest number of the format, a tie to the one with an
  even significand. A number of the format is an integer multiple of \<open>2\<^sup>q\<close>, where
  \<open>q\<close> is the exponent of the binade of the number (or the least exponent, below the
  normal range) less the precision plus one. The rounding \<open>round_fp\<close> has no overflow
  threshold, the constants of the example being far below it; \<open>round32\<close> below, the
  rounding of the operations, has it.
\<close>

definition round_to_even :: "real \<Rightarrow> int" where
  "round_to_even x =
     (let f = \<lfloor>x\<rfloor> in
      if x - of_int f < 1 / 2 then f
      else if 1 / 2 < x - of_int f then f + 1
      else if even f then f else f + 1)"

definition binade :: "real \<Rightarrow> int" where
  "binade x = \<lfloor>log 2 \<bar>x\<bar>\<rfloor>"

definition round_fp :: "nat \<Rightarrow> int \<Rightarrow> real \<Rightarrow> real" where
  "round_fp p emin x =
     (if x = 0 then 0
      else let q = max emin (binade x) - int p + 1
           in of_int (round_to_even (x / 2 powr of_int q)) * 2 powr of_int q)"

definition to_double :: "real \<Rightarrow> real" where
  "to_double x = round_fp 53 (- 1022) x"

definition to_float :: "real \<Rightarrow> real" where
  "to_float x = round_fp 24 (- 126) x"

text \<open>
  The arithmetic of \<^verbatim>\<open>float\<close> on the values of \<open>fpval\<close>. The result of an operation on
  finite numbers is the exact result rounded to single precision, and an infinity where
  the rounded result lies beyond the largest finite number \<open>FLT_MAX\<close>. An infinity less
  itself and zero times an infinity are NaN, and every operation on a NaN is a NaN. The
  difference of two numbers is the sum of the first and the negation of the second.
\<close>

definition FLT_MAX :: real where
  "FLT_MAX = (2 ^ 24 - 1) * 2 ^ 104"

definition round32 :: "real \<Rightarrow> fpval" where
  "round32 x =
     (let y = to_float x
      in if FLT_MAX < y then FPosInf else if y < - FLT_MAX then FNegInf else FFinite y)"

fun f_neg :: "fpval \<Rightarrow> fpval" where
  "f_neg FNaN = FNaN"
| "f_neg FNegInf = FPosInf"
| "f_neg (FFinite a) = FFinite (- a)"
| "f_neg FPosInf = FNegInf"

fun f_add :: "fpval \<Rightarrow> fpval \<Rightarrow> fpval" where
  "f_add FNaN _ = FNaN"
| "f_add _ FNaN = FNaN"
| "f_add (FFinite a) (FFinite b) = round32 (a + b)"
| "f_add (FFinite a) FPosInf = FPosInf"
| "f_add (FFinite a) FNegInf = FNegInf"
| "f_add FPosInf FNegInf = FNaN"
| "f_add FPosInf _ = FPosInf"
| "f_add FNegInf FPosInf = FNaN"
| "f_add FNegInf _ = FNegInf"

fun f_mul :: "fpval \<Rightarrow> fpval \<Rightarrow> fpval" where
  "f_mul FNaN _ = FNaN"
| "f_mul _ FNaN = FNaN"
| "f_mul (FFinite a) (FFinite b) = round32 (a * b)"
| "f_mul (FFinite a) FPosInf = (if a = 0 then FNaN else if 0 < a then FPosInf else FNegInf)"
| "f_mul (FFinite a) FNegInf = (if a = 0 then FNaN else if 0 < a then FNegInf else FPosInf)"
| "f_mul FPosInf (FFinite b) = (if b = 0 then FNaN else if 0 < b then FPosInf else FNegInf)"
| "f_mul FNegInf (FFinite b) = (if b = 0 then FNaN else if 0 < b then FNegInf else FPosInf)"
| "f_mul FPosInf FPosInf = FPosInf"
| "f_mul FPosInf FNegInf = FNegInf"
| "f_mul FNegInf FPosInf = FNegInf"
| "f_mul FNegInf FNegInf = FPosInf"

instantiation fpval :: "{zero, plus, minus, uminus, times}"
begin

definition zero_fpval :: fpval where
  "zero_fpval = FFinite 0"

definition plus_fpval :: "fpval \<Rightarrow> fpval \<Rightarrow> fpval" where
  "plus_fpval a b = f_add a b"

definition minus_fpval :: "fpval \<Rightarrow> fpval \<Rightarrow> fpval" where
  "minus_fpval a b = f_add a (f_neg b)"

definition uminus_fpval :: "fpval \<Rightarrow> fpval" where
  "uminus_fpval a = f_neg a"

definition times_fpval :: "fpval \<Rightarrow> fpval \<Rightarrow> fpval" where
  "times_fpval a b = f_mul a b"

instance ..

end



text \<open>
  \<^verbatim>\<open>static_cast<size_t>\<close> of a floating value drops the fraction; the conversion is
  undefined where the result is not a \<^verbatim>\<open>size_t\<close> of 64 bits.
\<close>

definition size_t_of_float :: "real \<Rightarrow> error + nat" where
  "size_t_of_float x =
     (let t = (if 0 \<le> x then \<lfloor>x\<rfloor> else \<lceil>x\<rceil>)
      in if 0 \<le> t \<and> t < 2 ^ 64 then Inr (nat t) else Inl OutOfRange)"

text \<open>
  Modelled from the spec: the initial heading of the scenario is \<open>-pi\<close>, which the
  example writes \<^verbatim>\<open>-M_PI\<close>. \<^verbatim>\<open>M_PI\<close> is a macro of \<^verbatim>\<open><math.h>\<close>, not of the sources:
  the \<^verbatim>\<open>double\<close> literal \<^verbatim>\<open>3.14159265358979323846\<close>.
\<close>

definition M_PI :: real where
  "M_PI = to_double (314159265358979323846 / 10 ^ 20)"

subsection \<open>one\_player\_reachability\_example.cpp\<close>

text \<open>
  \<^verbatim>\<open>
  static constexpr Time kTimeStep = 0.1;     // s
  static constexpr Time kTimeHorizon = 2.0;  // s
  static constexpr size_t kNumTimeSteps =
      static_cast<size_t>(kTimeHorizon / kTimeStep);
  static constexpr float kTargetRadius = 0.5;
  static constexpr float kP1InitialX = 2.0;        // m
  static constexpr float kP1InitialY = 2.0;        // m
  static constexpr float kP1InitialTheta = -M_PI;  // rad
  static constexpr float kP1InitialOmega = 0.0;    // rad/s
  static constexpr float kP1GoalX = 0.0;
  static constexpr float kP1GoalY = 0.0;
  \<close>
  \<^verbatim>\<open>Time\<close> is \<^verbatim>\<open>float\<close>. Each literal is a \<^verbatim>\<open>double\<close>, converted to \<^verbatim>\<open>float\<close> by the
  initialisation; the quotient of two \<^verbatim>\<open>float\<close>s is a \<^verbatim>\<open>float\<close>.
\<close>

definition kTimeStep :: real where
  "kTimeStep = to_float (to_double (1 / 10))"

definition kTimeHorizon :: real where
  "kTimeHorizon = to_float (to_double 2)"

definition kNumTimeSteps :: "error + nat" where
  "kNumTimeSteps = size_t_of_float (to_float (kTimeHorizon / kTimeStep))"

definition kTargetRadius :: real where
  "kTargetRadius = to_float (to_double (1 / 2))"

definition kP1InitialX :: real where
  "kP1InitialX = to_float (to_double 2)"

definition kP1InitialY :: real where
  "kP1InitialY = to_float (to_double 2)"

definition kP1InitialTheta :: real where
  "kP1InitialTheta = to_float (- M_PI)"

definition kP1InitialOmega :: real where
  "kP1InitialOmega = to_float (to_double 0)"

definition kP1GoalX :: real where
  "kP1GoalX = to_float (to_double 0)"

definition kP1GoalY :: real where
  "kP1GoalY = to_float (to_double 0)"

text \<open>
  \<^verbatim>\<open>
  x0_ = VectorXf::Zero(dynamics->XDim());
  x0_(kP1XIdx) = kP1InitialX;
  x0_(kP1YIdx) = kP1InitialY;
  x0_(kP1ThetaIdx) = kP1InitialTheta;
  x0_(kP1OmegaIdx) = kP1InitialOmega;
  \<close>
  The dimension \<^verbatim>\<open>dynamics->XDim()\<close> and the indices \<^verbatim>\<open>P1::kPxIdx\<close>, \<^verbatim>\<open>P1::kPyIdx\<close>,
  \<^verbatim>\<open>P1::kThetaIdx\<close> and \<^verbatim>\<open>P1::kOmegaIdx\<close> come from headers that are not among the
  sources: they are parameters. Writing a coefficient asserts that the index is inside
  the vector.
\<close>

definition set_coeff :: "'a VectorXf \<Rightarrow> int \<Rightarrow> 'a \<Rightarrow> error + 'a VectorXf" where
  "set_coeff v i a =
     (if 0 \<le> i \<and> i < int (length v) then Inr (v[nat i := a]) else Inl EigenAssertion)"

definition initial_state :: "int \<Rightarrow> int \<Rightarrow> int \<Rightarrow> int \<Rightarrow> int \<Rightarrow> error + real VectorXf" where
  "initial_state XDim kPxIdx kPyIdx kThetaIdx kOmegaIdx =
     andThen (VectorXf_Zero XDim) (\<lambda>x0.
     andThen (set_coeff x0 kPxIdx kP1InitialX) (\<lambda>x0.
     andThen (set_coeff x0 kPyIdx kP1InitialY) (\<lambda>x0.
     andThen (set_coeff x0 kThetaIdx kP1InitialTheta) (\<lambda>x0.
     set_coeff x0 kOmegaIdx kP1InitialOmega))))"

text \<open>
  Modelled from the spec: \<^verbatim>\<open>DrawCircle\<close>, which makes a polyline of a circle, is not
  among the sources. The goal of the scenario is a circle, and it is the one the call
  \<^verbatim>\<open>DrawCircle(Point2(kP1GoalX, kP1GoalY), kTargetRadius, 10)\<close> is given: a centre and a
  radius.
\<close>

record Circle =
  center :: "real \<times> real"
  radius :: real

definition goal :: Circle where
  "goal = \<lparr>center = (kP1GoalX, kP1GoalY), radius = kTargetRadius\<rparr>"

declare StrategyRef_loop.simps [simp del] Strategy_loop.simps [simp del]
  Strategy_of_ref_loop.simps [simp del]

subsection \<open>The sign function\<close>

lemma sgn_signed_pos: "0 <s x \<Longrightarrow> sgn_signed x = 1"
  by (simp add: sgn_signed_def word_sless_alt)

lemma sgn_signed_neg: "x <s 0 \<Longrightarrow> sgn_signed x = - 1"
  by (simp add: sgn_signed_def word_sless_alt)

lemma sgn_signed_zero: "sgn_signed 0 = 0"
  by (simp add: sgn_signed_def)

lemma sgn_floating_cases:
  "(fp_less (FFinite 0) x \<longrightarrow> sgn_floating x = FFinite 1) \<and>
   (fp_less x (FFinite 0) \<longrightarrow> sgn_floating x = FFinite (- 1)) \<and>
   (fp_eq x (FFinite 0) \<longrightarrow> sgn_floating x = FFinite 0)"
  by (cases x) (auto simp: sgn_floating_def)

text \<open>
  Claim C10. For every value \<open>x\<close> of a signed arithmetic type, \<open>sgn x\<close> is \<open>1\<close> if
  \<open>x > 0\<close>, \<open>-1\<close> if \<open>x < 0\<close> and \<open>0\<close> if \<open>x = 0\<close>; for every value of an unsigned
  arithmetic type, \<open>sgn x\<close> is \<open>1\<close> if \<open>x > 0\<close> and \<open>0\<close> if \<open>x = 0\<close>. The signed integer
  types are the words read by \<open>sint\<close> (compared by \<open><s\<close>), the floating types are
  \<open>fpval\<close>, the unsigned types are the words read by \<open>unat\<close>.
\<close>

theorem sgn_correct:
  fixes x :: "'a::len word" and y :: "'b::len word" and z :: fpval
  shows "(0 <s x \<longrightarrow> sgn_signed x = 1) \<and>
         (x <s 0 \<longrightarrow> sgn_signed x = - 1) \<and>
         (x = 0 \<longrightarrow> sgn_signed x = 0) \<and>
         (fp_less (FFinite 0) z \<longrightarrow> sgn_floating z = FFinite 1) \<and>
         (fp_less z (FFinite 0) \<longrightarrow> sgn_floating z = FFinite (- 1)) \<and>
         (fp_eq z (FFinite 0) \<longrightarrow> sgn_floating z = FFinite 0) \<and>
         (0 < y \<longrightarrow> sgn_unsigned y = 1) \<and>
         (y = 0 \<longrightarrow> sgn_unsigned y = 0)"
  using sgn_floating_cases [of z]
  by (simp add: sgn_signed_pos sgn_signed_neg sgn_signed_zero sgn_unsigned_def)

theorem sgn_correct_witness:
  "sgn_signed (5 :: 32 word) = 1 \<and> sgn_signed (- 7 :: 32 word) = - 1 \<and>
   sgn_signed (0 :: 32 word) = 0 \<and>
   sgn_floating (FFinite (1 / 2)) = FFinite 1 \<and>
   sgn_floating FNegInf = FFinite (- 1) \<and>
   sgn_floating (FFinite 0) = FFinite 0 \<and>
   sgn_unsigned (200 :: 8 word) = 1 \<and> sgn_unsigned (0 :: 8 word) = 0"
  using sgn_correct [where x = "5 :: 32 word" and y = "200 :: 8 word" and z = "FFinite (1 / 2)"]
    sgn_correct [where x = "- 7 :: 32 word" and y = "0 :: 8 word" and z = "FNegInf"]
    sgn_correct [where x = "0 :: 32 word" and y = "0 :: 8 word" and z = "FFinite 0"]
  by (simp add: word_sless_alt)

subsection \<open>Strategy containers\<close>

lemma Strategy_loop_closed:
  fixes s :: "'a::zero Strategy"
  shows "0 \<le> xdim \<Longrightarrow> 0 \<le> udim \<Longrightarrow> ii \<le> horizon \<Longrightarrow> length (Ps s) = horizon \<Longrightarrow> length (alphas s) = horizon \<Longrightarrow>
    Strategy_loop ii horizon xdim udim s =
      Inr \<lparr>Ps = take ii (Ps s) @
                replicate (horizon - ii)
                  \<lparr>rows = nat udim, cols = nat xdim, coeffs = replicate (nat udim * nat xdim) 0\<rparr>,
            alphas = take ii (alphas s) @ replicate (horizon - ii) (replicate (nat udim) 0)\<rparr>"
proof (induction ii horizon xdim udim s rule: Strategy_loop.induct)
  case (1 ii horizon xdim udim s)
  show ?case
  proof (cases "ii < horizon")
    case True
    let ?Z = "\<lparr>rows = nat udim, cols = nat xdim,
               coeffs = replicate (nat udim * nat xdim) (0::'a)\<rparr>"
    let ?z = "replicate (nat udim) (0::'a)"
    let ?s = "s\<lparr>Ps := (Ps s)[ii := ?Z], alphas := (alphas s)[ii := ?z]\<rparr>"
    have Z: "MatrixXf_Zero udim xdim = Inr ?Z" and z: "VectorXf_Zero udim = Inr ?z"
      using "1.prems" by (simp_all add: MatrixXf_Zero_def VectorXf_Zero_def)
    have IH: "Strategy_loop (Suc ii) horizon xdim udim ?s =
      Inr \<lparr>Ps = take (Suc ii) (Ps ?s) @ replicate (horizon - Suc ii) ?Z,
            alphas = take (Suc ii) (alphas ?s) @ replicate (horizon - Suc ii) ?z\<rparr>"
      using "1.IH" [OF True Z z] True "1.prems" by simp
    have P: "take (Suc ii) ((Ps s)[ii := ?Z]) @ replicate (horizon - Suc ii) ?Z =
             take ii (Ps s) @ replicate (horizon - ii) ?Z"
      using True "1.prems"
      by (simp add: take_Suc_conv_app_nth replicate_app_Cons_same Suc_diff_Suc flip: replicate_Suc)
    have A: "take (Suc ii) ((alphas s)[ii := ?z]) @ replicate (horizon - Suc ii) ?z =
             take ii (alphas s) @ replicate (horizon - ii) ?z"
      using True "1.prems"
      by (simp add: take_Suc_conv_app_nth replicate_app_Cons_same Suc_diff_Suc flip: replicate_Suc)
    show ?thesis
      using True Z z IH P A by (subst Strategy_loop.simps) simp
  next
    case False
    with "1.prems" show ?thesis by (subst Strategy_loop.simps) simp
  qed
qed

lemma Strategy_ctor_closed:
  "Strategy_ctor horizon xdim udim =
     (if horizon = 0 then Inr \<lparr>Ps = [], alphas = []\<rparr>
      else if udim < 0 \<or> xdim < 0 then Inl EigenAssertion
      else Inr \<lparr>Ps = replicate horizon
                  \<lparr>rows = nat udim, cols = nat xdim, coeffs = replicate (nat udim * nat xdim) 0\<rparr>,
                alphas = replicate horizon (replicate (nat udim) 0)\<rparr>)"
proof (cases "horizon = 0")
  case True
  then show ?thesis by (simp add: Strategy_ctor_def Strategy_loop.simps)
next
  case False
  show ?thesis
  proof (cases "udim < 0 \<or> xdim < 0")
    case True
    with False show ?thesis
      by (auto simp: Strategy_ctor_def Strategy_loop.simps [of 0] MatrixXf_Zero_def VectorXf_Zero_def)
  next
    case neg: False
    with False show ?thesis
      using Strategy_loop_closed [of xdim udim 0 horizon
          "\<lparr>Ps = replicate horizon MatrixXf_default, alphas = replicate horizon []\<rparr>"]
      by (simp add: Strategy_ctor_def)
  qed
qed

lemma StrategyRef_loop_Inr:
  "StrategyRef_loop kk horizon xdim udim primals idx r = Inr r' \<Longrightarrow>
   ref_Ps r' = ref_Ps r @
     map (\<lambda>k. \<lparr>data = idx + k * (nat xdim * nat udim + nat udim),
                m_rows = nat xdim, m_cols = nat udim\<rparr>) [0..<horizon - kk] \<and>
   ref_alphas r' = ref_alphas r @
     map (\<lambda>k. \<lparr>start = idx + k * (nat xdim * nat udim + nat udim) + nat xdim * nat udim,
                len = nat udim\<rparr>) [0..<horizon - kk] \<and>
   (kk < horizon \<longrightarrow> 0 \<le> xdim \<and> 0 \<le> udim \<and> xdim * udim \<le> INT_MAX \<and>
      idx < length primals \<and>
      idx + (horizon - kk) * (nat xdim * nat udim + nat udim) \<le> length primals)"
proof (induction kk horizon xdim udim primals idx r rule: StrategyRef_loop.induct)
  case (1 kk horizon xdim udim primals idx r)
  let ?n = "nat xdim * nat udim + nat udim"
  let ?i = "idx + nat xdim * nat udim + nat udim"
  show ?case
  proof (cases "kk < horizon")
    case False
    with "1.prems" show ?thesis by (subst (asm) StrategyRef_loop.simps) simp
  next
    case True
    let ?r = "r\<lparr>ref_Ps := ref_Ps r @ [\<lparr>data = idx, m_rows = nat xdim, m_cols = nat udim\<rparr>],
               ref_alphas := ref_alphas r @
                 [\<lparr>start = idx + nat (xdim * udim), len = nat udim\<rparr>]\<rparr>"
    have unfold: "StrategyRef_loop kk horizon xdim udim primals idx r =
        (if \<not> idx < length primals then Inl EigenAssertion
         else if xdim < 0 \<or> udim < 0 then Inl EigenAssertion
         else if INT_MAX < xdim * udim then Inl SignedOverflow
         else if length primals < idx + nat (xdim * udim) + nat udim then Inl EigenAssertion
         else StrategyRef_loop (Suc kk) horizon xdim udim primals
                (idx + nat (xdim * udim) + nat udim) ?r)"
      using True by (subst StrategyRef_loop.simps) simp
    from "1.prems" have c: "idx < length primals" "0 \<le> xdim" "0 \<le> udim"
      "xdim * udim \<le> INT_MAX" "idx + nat (xdim * udim) + nat udim \<le> length primals"
      and run: "StrategyRef_loop (Suc kk) horizon xdim udim primals
                  (idx + nat (xdim * udim) + nat udim) ?r = Inr r'"
      unfolding unfold by (simp_all split: if_splits)
    have n: "nat (xdim * udim) = nat xdim * nat udim"
      using c by (simp add: nat_mult_distrib)
    note IH = "1.IH" [OF True _ _ _ _ run]
    have IH': "ref_Ps r' = ref_Ps ?r @
        map (\<lambda>k. \<lparr>data = ?i + k * ?n, m_rows = nat xdim, m_cols = nat udim\<rparr>)
          [0..<horizon - Suc kk]"
      "ref_alphas r' = ref_alphas ?r @
        map (\<lambda>k. \<lparr>start = ?i + k * ?n + nat xdim * nat udim, len = nat udim\<rparr>)
          [0..<horizon - Suc kk]"
      "Suc kk < horizon \<longrightarrow> ?i + (horizon - Suc kk) * ?n \<le> length primals"
      using IH c by (simp_all add: n)
    have up: "[0..<horizon - kk] = 0 # map Suc [0..<horizon - Suc kk]"
      using True by (metis Suc_diff_Suc map_Suc_upt upt_conv_Cons zero_less_Suc)
    have sh: "?i + k * ?n = idx + Suc k * ?n" for k
      by simp
    have b: "idx + (horizon - kk) * ?n \<le> length primals"
    proof (cases "Suc kk < horizon")
      case True
      with IH'(3) show ?thesis
        by (metis Suc_diff_Suc \<open>kk < horizon\<close> sh)
    next
      case False
      with True have "horizon - kk = 1" by simp
      with c n show ?thesis by simp
    qed
    show ?thesis
      using IH'(1,2) c b True unfolding up sh by (simp add: comp_def n del: mult_Suc)
  qed
qed

lemma andThen_Inr_iff:
  "andThen r f = Inr y \<longleftrightarrow> (\<exists>v. r = Inr v \<and> f v = Inr y)"
  by (cases r) (simp_all add: andThen_def)

lemma elem_at_Inr_iff: "elem_at vs i = Inr v \<longleftrightarrow> i < length vs \<and> v = vs ! i"
  by (auto simp: elem_at_def)

lemma vec_add_Inr_iff:
  "vec_add a b = Inr c \<longleftrightarrow> length a = length b \<and> c = map2 (+) a b"
  by (auto simp: vec_add_def)

lemma vec_sub_Inr_iff:
  "vec_sub a b = Inr c \<longleftrightarrow> length a = length b \<and> c = map2 (-) a b"
  by (auto simp: vec_sub_def)

lemma mat_vec_Inr_iff:
  "mat_vec M v = Inr w \<longleftrightarrow>
     cols M = length v \<and>
     w = map (row_dot M v) [0..<rows M]"
  by (auto simp: mat_vec_def)

lemma read_Map_Inr_iff:
  "read_Map primals v = Inr M \<longleftrightarrow>
     data v + m_rows v * m_cols v \<le> length primals \<and>
     M = \<lparr>rows = m_rows v, cols = m_cols v,
          coeffs = take (m_rows v * m_cols v) (drop (data v) primals)\<rparr>"
  by (auto simp: read_Map_def)

lemma read_Ref_Inr_iff:
  "read_Ref primals v = Inr a \<longleftrightarrow>
     start v + len v \<le> length primals \<and> a = take (len v) (drop (start v) primals)"
  by (auto simp: read_Ref_def)

lemma read_Map_shape:
  "read_Map primals v = Inr M \<Longrightarrow>
     rows M = m_rows v \<and> cols M = m_cols v \<and> length (coeffs M) = m_rows v * m_cols v"
  by (auto simp: read_Map_Inr_iff)

lemma read_Ref_length: "read_Ref primals v = Inr a \<Longrightarrow> length a = len v"
  by (auto simp: read_Ref_Inr_iff)


subsection \<open>Single precision\<close>

lemma binade_eqI:
  assumes "2 powr of_int e \<le> \<bar>x\<bar>" and "\<bar>x\<bar> < 2 powr of_int (e + 1)"
  shows "binade x = e"
proof -
  have "0 < (2 :: real) powr of_int e"
    by simp
  with assms(1) have "0 < \<bar>x\<bar>"
    by linarith
  then show ?thesis
    unfolding binade_def using assms by (subst floor_log_eq_powr_iff) simp_all
qed

lemma round_fp_eqI:
  assumes "2 powr of_int e \<le> \<bar>x\<bar>" and "\<bar>x\<bar> < 2 powr of_int (e + 1)" and "emin \<le> e"
    and "round_to_even (x / 2 powr of_int (e - int p + 1)) = m"
  shows "round_fp p emin x = of_int m * 2 powr of_int (e - int p + 1)"
proof -
  have "0 < (2 :: real) powr of_int e"
    by simp
  with assms(1) have "x \<noteq> 0"
    by auto
  moreover have "max emin (binade x) = e"
    using binade_eqI [OF assms(1,2)] assms(3) by simp
  ultimately show ?thesis
    using assms(4) by (simp add: round_fp_def)
qed

lemma round_to_even_of_int: "round_to_even (of_int k) = k"
  by (simp add: round_to_even_def)

lemma to_float_of_int:
  assumes "\<bar>n\<bar> < 2 ^ 24"
  shows "to_float (of_int n) = of_int n"
proof (cases "n = 0")
  case True
  then show ?thesis by (simp add: to_float_def round_fp_def)
next
  case False
  define x :: real where "x = of_int n"
  define e where "e = \<lfloor>log 2 \<bar>x\<bar>\<rfloor>"
  have x1: "1 \<le> \<bar>x\<bar>" and x2: "\<bar>x\<bar> < 2 ^ 24"
    using False assms unfolding x_def
    by (simp_all flip: of_int_abs add: of_int_less_iff [of _ "2 ^ 24", simplified]
        of_int_le_iff [of 1, simplified])
  have pos: "0 < \<bar>x\<bar>" using x1 by linarith
  have b: "2 powr of_int e \<le> \<bar>x\<bar>" "\<bar>x\<bar> < 2 powr of_int (e + 1)"
    using floor_log_eq_powr_iff [of "\<bar>x\<bar>" 2 e] pos by (simp_all add: e_def)
  have e0: "0 \<le> e"
    unfolding e_def using x1 by simp
  have "log 2 \<bar>x\<bar> < 24"
    using x2 pos by (subst log_less_iff) (simp_all add: powr_numeral)
  then have e23: "e \<le> 23"
    unfolding e_def by (simp add: floor_le_iff)
  define d where "d = nat (23 - e)"
  have q: "(2 :: real) powr of_int (e - int 24 + 1) = 1 / 2 ^ d"
  proof -
    have "e - int 24 + 1 = - int d"
      using e23 by (simp add: d_def)
    then have "(2 :: real) powr of_int (e - int 24 + 1) = 2 powr (- real d)"
      by simp
    also have "\<dots> = 1 / 2 ^ d"
      by (simp add: powr_minus powr_realpow divide_inverse)
    finally show ?thesis .
  qed
  have r: "round_to_even (x / 2 powr of_int (e - int 24 + 1)) = n * 2 ^ d"
  proof -
    have "x / 2 powr of_int (e - int 24 + 1) = of_int (n * 2 ^ d)"
      unfolding q x_def by simp
    then show ?thesis
      by (simp only: round_to_even_of_int)
  qed
  have "round_fp 24 (- 126) x = of_int (n * 2 ^ d) * 2 powr of_int (e - int 24 + 1)"
    using b e0 r by (intro round_fp_eqI) simp_all
  also have "\<dots> = x"
    unfolding q x_def by simp
  finally show ?thesis
    by (simp add: to_float_def x_def)
qed

lemma FLT_MAX_large: "2 ^ 24 \<le> FLT_MAX"
  by (simp add: FLT_MAX_def)

lemma round32_of_int:
  assumes "\<bar>n\<bar> < 2 ^ 24"
  shows "round32 (of_int n) = FFinite (of_int n)"
proof -
  have "\<bar>real_of_int n\<bar> < 2 ^ 24"
    using assms by (simp flip: of_int_abs add: of_int_less_iff [of _ "2 ^ 24", simplified])
  with FLT_MAX_large have "\<not> FLT_MAX < of_int n" "\<not> real_of_int n < - FLT_MAX"
    by linarith+
  then show ?thesis
    by (simp add: round32_def to_float_of_int [OF assms])
qed

lemma round32_0: "round32 0 = FFinite 0"
  using round32_of_int [of 0] by simp

lemma round32_1: "round32 1 = FFinite 1"
  using round32_of_int [of 1] by simp


lemma round32_numeral:
  "(numeral k :: int) < 2 ^ 24 \<Longrightarrow> round32 (numeral k) = FFinite (numeral k)"
  using round32_of_int [of "numeral k"] by simp


lemmas fp_arith = zero_fpval_def plus_fpval_def minus_fpval_def uminus_fpval_def times_fpval_def




text \<open>Twice the largest finite number of single precision overflows.\<close>

lemma to_float_overflow: "to_float (FLT_MAX * 2) = FLT_MAX * 2"
proof -
  have "to_float ((2 ^ 24 - 1) * 2 ^ 104 * 2) =
      of_int (2 ^ 24 - 1) * 2 powr of_int (128 - int 24 + 1)"
    unfolding to_float_def
    by (rule round_fp_eqI) (simp_all add: round_to_even_def powr_numeral)
  then show ?thesis
    by (simp add: FLT_MAX_def powr_numeral)
qed

lemma round32_overflow: "round32 (FLT_MAX * 2) = FPosInf"
proof -
  have "FLT_MAX < FLT_MAX * 2"
    by (simp add: FLT_MAX_def)
  then show ?thesis
    by (simp add: round32_def Let_def to_float_overflow)
qed




text \<open>
  Where the product overflows the operator returns an infinity: the gain \<open>FLT_MAX\<close> and
  the deviation 2 give \<open>-inf\<close>.
\<close>

lemma Strategy_call_overflows:
  "Strategy_call
     \<lparr>Ps = [\<lparr>rows = 1, cols = 1, coeffs = [FFinite FLT_MAX]\<rparr>], alphas = [[FFinite 0]]\<rparr>
     0 [FFinite 2] [FFinite 0] = Inr [FNegInf]"
  by (simp add: Strategy_call_def andThen_def elem_at_def mat_vec_def row_dot_def coeff_def
      vec_sub_def fp_arith round32_overflow)

lemma Strategy_ctor_Inr:
  fixes s :: "'a::zero Strategy"
  assumes "Strategy_ctor h xdim udim = Inr s" and "t < h"
  shows "0 \<le> xdim" and "0 \<le> udim"
    and "length (Ps s) = h" and "length (alphas s) = h"
    and "Ps s ! t = \<lparr>rows = nat udim, cols = nat xdim,
                       coeffs = replicate (nat udim * nat xdim) 0\<rparr>"
    and "alphas s ! t = replicate (nat udim) 0"
  using assms by (auto simp: Strategy_ctor_closed split: if_splits)










lemma Strategy_of_ref_body_Inr:
  assumes "Strategy_of_ref_body primals other op i t = Inr (P, a)"
  shows "t < length (ref_Ps other)" and "read_Map primals (ref_Ps other ! t) = Inr P"
    and "t < length (ref_alphas other)" and "t < length (us op)"
    and "i < length (us op ! t)" and "t < length (xs op)"
    and "cols P = length (xs op ! t)"
    and "\<exists>alpha. read_Ref primals (ref_alphas other ! t) = Inr alpha \<and>
           length (us op ! t ! i) = length alpha \<and> rows P = length alpha \<and>
           a = map (\<lambda>k. alpha ! k + us op ! t ! i ! k -
                          row_dot P (xs op ! t) k) [0..<length alpha]"
proof -
  from assms obtain alpha alpha_u Px where
    b: "t < length (ref_Ps other)" "read_Map primals (ref_Ps other ! t) = Inr P"
      "t < length (ref_alphas other)" "read_Ref primals (ref_alphas other ! t) = Inr alpha"
      "t < length (us op)" "i < length (us op ! t)"
      "vec_add alpha (us op ! t ! i) = Inr alpha_u"
      "t < length (xs op)" "mat_vec P (xs op ! t) = Inr Px"
      "vec_sub alpha_u Px = Inr a"
    unfolding Strategy_of_ref_body_def andThen_Inr_iff elem_at_Inr_iff by auto
  from b(7) have au: "length alpha = length (us op ! t ! i)"
    "alpha_u = map2 (+) alpha (us op ! t ! i)"
    by (simp_all add: vec_add_Inr_iff)
  from b(9) have Px: "cols P = length (xs op ! t)"
    "Px = map (row_dot P (xs op ! t)) [0..<rows P]"
    by (simp_all add: mat_vec_Inr_iff)
  from b(10) au Px have a: "rows P = length alpha" "a = map2 (-) alpha_u Px"
    by (simp_all add: vec_sub_Inr_iff)
  have "a = map (\<lambda>k. alpha ! k + us op ! t ! i ! k -
                          row_dot P (xs op ! t) k) [0..<length alpha]"
    using au(1) a(1) by (intro nth_equalityI) (simp_all add: a(2) au(2) Px(2))
  with b au a Px(1)
  show "t < length (ref_Ps other)" and "read_Map primals (ref_Ps other ! t) = Inr P"
    and "t < length (ref_alphas other)" and "t < length (us op)"
    and "i < length (us op ! t)" and "t < length (xs op)"
    and "cols P = length (xs op ! t)"
    and "\<exists>alpha. read_Ref primals (ref_alphas other ! t) = Inr alpha \<and>
           length (us op ! t ! i) = length alpha \<and> rows P = length alpha \<and>
           a = map (\<lambda>k. alpha ! k + us op ! t ! i ! k -
                          row_dot P (xs op ! t) k) [0..<length alpha]"
    by simp_all
qed

lemma Strategy_of_ref_loop_Inr:
  "Strategy_of_ref_loop kk primals other op i s = Inr s' \<Longrightarrow>
   length (alphas s) = length (ref_alphas other) \<Longrightarrow>
   length (Ps s') = length (Ps s) \<and> length (alphas s') = length (alphas s) \<and>
   (\<forall>t. kk \<le> t \<and> t < length (Ps s) \<longrightarrow>
      Strategy_of_ref_body primals other op i t = Inr (Ps s' ! t, alphas s' ! t)) \<and>
   (\<forall>t<kk. Ps s' ! t = Ps s ! t \<and> alphas s' ! t = alphas s ! t)"
proof (induction kk primals other op i s rule: Strategy_of_ref_loop.induct)
  case (1 kk primals other op i s)
  show ?case
  proof (cases "kk < length (Ps s)")
    case False
    with "1.prems" show ?thesis
      by (subst (asm) Strategy_of_ref_loop.simps) auto
  next
    case True
    from "1.prems"(1) True obtain P a where
      body: "Strategy_of_ref_body primals other op i kk = Inr (P, a)"
      and run: "Strategy_of_ref_loop (Suc kk) primals other op i
                  (s\<lparr>Ps := (Ps s)[kk := P], alphas := (alphas s)[kk := a]\<rparr>) = Inr s'"
      by (subst (asm) Strategy_of_ref_loop.simps) (auto split: sum.splits)
    let ?s = "s\<lparr>Ps := (Ps s)[kk := P], alphas := (alphas s)[kk := a]\<rparr>"
    have kk: "kk < length (alphas s)"
      using Strategy_of_ref_body_Inr(3) [OF body] "1.prems"(2) by simp
    have IH: "length (Ps s') = length (Ps ?s) \<and> length (alphas s') = length (alphas ?s) \<and>
      (\<forall>t. Suc kk \<le> t \<and> t < length (Ps ?s) \<longrightarrow>
         Strategy_of_ref_body primals other op i t = Inr (Ps s' ! t, alphas s' ! t)) \<and>
      (\<forall>t<Suc kk. Ps s' ! t = Ps ?s ! t \<and> alphas s' ! t = alphas ?s ! t)"
      using "1.IH" [OF True body refl run] "1.prems"(2) by simp
    then have here: "Ps s' ! kk = P" "alphas s' ! kk = a"
      using True kk by simp_all
    have old: "\<forall>t<kk. Ps s' ! t = Ps s ! t \<and> alphas s' ! t = alphas s ! t"
      using IH by (auto simp: nth_list_update)
    have new: "Strategy_of_ref_body primals other op i t = Inr (Ps s' ! t, alphas s' ! t)"
      if "kk \<le> t" "t < length (Ps s)" for t
    proof (cases "t = kk")
      case True
      with body here show ?thesis by simp
    next
      case False
      with that have "Suc kk \<le> t" by simp
      with IH that show ?thesis by simp
    qed
    from IH old new show ?thesis by simp
  qed
qed

lemma Strategy_of_ref_Inr:
  assumes "Strategy_of_ref primals other op i = Inr s"
  shows "length (Ps s) = length (ref_Ps other)"
    and "length (alphas s) = length (ref_alphas other)"
    and "t < length (ref_Ps other) \<Longrightarrow>
           Strategy_of_ref_body primals other op i t = Inr (Ps s ! t, alphas s ! t)"
  using Strategy_of_ref_loop_Inr [OF assms [unfolded Strategy_of_ref_def]] by simp_all



















lemma StrategyRef_ctor_Inr:
  assumes "StrategyRef_ctor h xdim udim primals i0 = Inr r"
  shows "ref_Ps r = map (\<lambda>k. \<lparr>data = i0 + k * (nat xdim * nat udim + nat udim),
                                m_rows = nat xdim, m_cols = nat udim\<rparr>) [0..<h]"
    and "ref_alphas r =
           map (\<lambda>k. \<lparr>start = i0 + k * (nat xdim * nat udim + nat udim) + nat xdim * nat udim,
                      len = nat udim\<rparr>) [0..<h]"
    and "0 < h \<Longrightarrow> 0 \<le> xdim \<and> 0 \<le> udim \<and> xdim * udim \<le> INT_MAX \<and>
           i0 < length primals \<and>
           i0 + h * (nat xdim * nat udim + nat udim) \<le> length primals"
  using StrategyRef_loop_Inr [OF assms [unfolded StrategyRef_ctor_def]] by simp_all









lemma Strategy_NumVariables_Inr_iff:
  "(\<exists>n. Strategy_NumVariables s = Inr n) \<longleftrightarrow>
     length (Ps s) = length (alphas s) \<and> 1 \<le> length (Ps s)"
  by (cases "Ps s"; cases "alphas s") (simp_all add: Strategy_NumVariables_def)

lemma StrategyRef_NumVariables_Inr_iff:
  "(\<exists>n. StrategyRef_NumVariables r = Inr n) \<longleftrightarrow>
     length (ref_Ps r) = length (ref_alphas r) \<and> 1 \<le> length (ref_Ps r)"
  by (cases "ref_Ps r"; cases "ref_alphas r") (simp_all add: StrategyRef_NumVariables_def)

lemma Strategy_NumVariables_empty:
  "Ps s = [] \<Longrightarrow> alphas s = [] \<Longrightarrow> Strategy_NumVariables s = Inl OutOfRange"
  by (simp add: Strategy_NumVariables_def)

lemma StrategyRef_NumVariables_empty:
  "ref_Ps r = [] \<Longrightarrow> ref_alphas r = [] \<Longrightarrow> StrategyRef_NumVariables r = Inl OutOfRange"
  by (simp add: StrategyRef_NumVariables_def)

lemma Strategy_NumVariables_nth:
  assumes "length (Ps s) = h" and "length (alphas s) = h" and "0 < h"
  shows "Strategy_NumVariables s = Inr (h * (size_of (Ps s ! 0) + length (alphas s ! 0)))"
proof -
  from assms obtain P Ps' where P: "Ps s = P # Ps'"
    by (cases "Ps s") auto
  from assms obtain a alphas' where a: "alphas s = a # alphas'"
    by (cases "alphas s") auto
  from assms(1,2) show ?thesis
    unfolding Strategy_NumVariables_def P a by (simp add: Let_def)
qed

lemma StrategyRef_NumVariables_nth:
  assumes "length (ref_Ps r) = h" and "length (ref_alphas r) = h" and "0 < h"
  shows "StrategyRef_NumVariables r =
    Inr (h * (m_rows (ref_Ps r ! 0) * m_cols (ref_Ps r ! 0) + len (ref_alphas r ! 0)))"
proof -
  from assms obtain P Ps' where P: "ref_Ps r = P # Ps'"
    by (cases "ref_Ps r") auto
  from assms obtain a alphas' where a: "ref_alphas r = a # alphas'"
    by (cases "ref_alphas r") auto
  from assms(1,2) show ?thesis
    unfolding StrategyRef_NumVariables_def P a by (simp add: Let_def)
qed

lemma Strategy_of_ref_NumVariables:
  assumes "Strategy_of_ref primals r op i = Inr s"
  shows "Strategy_NumVariables s = StrategyRef_NumVariables r"
proof -
  note len = Strategy_of_ref_Inr(1,2) [OF assms]
  show ?thesis
  proof (cases "length (ref_Ps r) = length (ref_alphas r)")
    case False
    with len show ?thesis
      by (simp add: Strategy_NumVariables_def StrategyRef_NumVariables_def)
  next
    case eq: True
    show ?thesis
    proof (cases "length (ref_Ps r) = 0")
      case True
      with eq len show ?thesis
        by (simp add: Strategy_NumVariables_empty StrategyRef_NumVariables_empty)
    next
      case False
      then have pos: "0 < length (ref_Ps r)" by simp
      note body = Strategy_of_ref_body_Inr [OF Strategy_of_ref_Inr(3) [OF assms pos]]
      from body(8) obtain alpha where
        alpha: "read_Ref primals (ref_alphas r ! 0) = Inr alpha"
        and a: "alphas s ! 0 = map (\<lambda>k. alpha ! k + us op ! 0 ! i ! k -
               row_dot (Ps s ! 0) (xs op ! 0) k) [0..<length alpha]"
        by blast
      have la: "length (alphas s ! 0) = len (ref_alphas r ! 0)"
        using read_Ref_length [OF alpha] by (subst a) simp
      have sz: "size_of (Ps s ! 0) = m_rows (ref_Ps r ! 0) * m_cols (ref_Ps r ! 0)"
        using read_Map_shape [OF body(2)] by (simp add: size_of_def)
      have s2: "length (alphas s) = length (ref_Ps r)"
        using len(2) eq by simp
      have r2: "length (ref_alphas r) = length (ref_Ps r)"
        using eq by simp
      have "Strategy_NumVariables s =
          Inr (length (ref_Ps r) * (size_of (Ps s ! 0) + length (alphas s ! 0)))"
        by (rule Strategy_NumVariables_nth [OF len(1) s2 pos])
      also have "\<dots> = Inr (length (ref_Ps r) *
          (m_rows (ref_Ps r ! 0) * m_cols (ref_Ps r ! 0) + len (ref_alphas r ! 0)))"
        by (simp only: la sz)
      also have "\<dots> = StrategyRef_NumVariables r"
        by (rule StrategyRef_NumVariables_nth [OF refl r2 pos, symmetric])
      finally show ?thesis .
    qed
  qed
qed

text \<open>
  Claim C4. For a Strategy or a StrategyRef constructed with horizon \<open>h \<ge> 1\<close>, state
  dimension \<open>xdim\<close> and control dimension \<open>udim\<close>, \<open>NumVariables()\<close> returns
  \<open>h * (udim * xdim + udim)\<close>; and the \<open>NumVariables()\<close> of a Strategy equals that of the
  StrategyRef it was constructed from (for every view, also where both abort).
\<close>

theorem NumVariables_count:
  "(1 \<le> h \<and> Strategy_ctor h xdim udim = Inr s \<longrightarrow>
      (\<exists>n. Strategy_NumVariables s = Inr n \<and> int n = int h * (udim * xdim + udim))) \<and>
   (1 \<le> h \<and> StrategyRef_ctor h xdim udim primals i0 = Inr r \<longrightarrow>
      (\<exists>n. StrategyRef_NumVariables r = Inr n \<and> int n = int h * (udim * xdim + udim))) \<and>
   (Strategy_of_ref primals' r' op i = Inr s' \<longrightarrow>
      Strategy_NumVariables s' = StrategyRef_NumVariables r')"
proof (intro conjI impI)
  assume a: "1 \<le> h \<and> Strategy_ctor h xdim udim = Inr s"
  then have h: "0 < h" by simp
  note c = Strategy_ctor_Inr [OF conjunct2 [OF a] h]
  have "Strategy_NumVariables s = Inr (h * (nat udim * nat xdim + nat udim))"
    using Strategy_NumVariables_nth [OF c(3,4) h] by (simp add: c(5,6) size_of_def)
  moreover have "int (h * (nat udim * nat xdim + nat udim)) = int h * (udim * xdim + udim)"
    using c(1,2) by simp
  ultimately show "\<exists>n. Strategy_NumVariables s = Inr n \<and> int n = int h * (udim * xdim + udim)"
    by blast
next
  assume a: "1 \<le> h \<and> StrategyRef_ctor h xdim udim primals i0 = Inr r"
  then have h: "0 < h" by simp
  note c = StrategyRef_ctor_Inr [OF conjunct2 [OF a]]
  have "StrategyRef_NumVariables r = Inr (h * (nat xdim * nat udim + nat udim))"
    using StrategyRef_NumVariables_nth [of r h] h by (simp add: c(1,2))
  moreover have "int (h * (nat xdim * nat udim + nat udim)) = int h * (udim * xdim + udim)"
    using c(3) [OF h] by (simp add: mult.commute)
  ultimately show "\<exists>n. StrategyRef_NumVariables r = Inr n \<and> int n = int h * (udim * xdim + udim)"
    by blast
next
  assume "Strategy_of_ref primals' r' op i = Inr s'"
  then show "Strategy_NumVariables s' = StrategyRef_NumVariables r'"
    by (rule Strategy_of_ref_NumVariables)
qed

theorem NumVariables_count_witness:
  "Strategy_ctor 2 2 1 =
     Inr \<lparr>Ps = [\<lparr>rows = 1, cols = 2, coeffs = [FFinite 0, FFinite 0]\<rparr>,
                \<lparr>rows = 1, cols = 2, coeffs = [FFinite 0, FFinite 0]\<rparr>],
          alphas = [[FFinite 0], [FFinite 0]]\<rparr> \<and>
   Strategy_NumVariables
     \<lparr>Ps = [\<lparr>rows = 1, cols = 2, coeffs = [FFinite 0, FFinite 0]\<rparr>,
            \<lparr>rows = 1, cols = 2, coeffs = [FFinite 0, FFinite 0]\<rparr>],
      alphas = [[FFinite 0], [FFinite 0]]\<rparr> = Inr 6 \<and>
   StrategyRef_ctor 1 2 2 [FFinite 1, FFinite 2, FFinite 3, FFinite 4, FFinite 5, FFinite 6] 0 =
     Inr \<lparr>ref_Ps = [\<lparr>data = 0, m_rows = 2, m_cols = 2\<rparr>], ref_alphas = [\<lparr>start = 4, len = 2\<rparr>]\<rparr> \<and>
   StrategyRef_NumVariables
     \<lparr>ref_Ps = [\<lparr>data = 0, m_rows = 2, m_cols = 2\<rparr>], ref_alphas = [\<lparr>start = 4, len = 2\<rparr>]\<rparr> =
     Inr 6 \<and>
   Strategy_of_ref [FFinite 1, FFinite 2, FFinite 3, FFinite 4, FFinite 5, FFinite 6]
     \<lparr>ref_Ps = [\<lparr>data = 0, m_rows = 2, m_cols = 2\<rparr>], ref_alphas = [\<lparr>start = 4, len = 2\<rparr>]\<rparr>
     \<lparr>xs = [[FFinite 1, FFinite 1]], us = [[[FFinite 10, FFinite 20]]]\<rparr> 0 =
     Inr \<lparr>Ps = [\<lparr>rows = 2, cols = 2, coeffs = [FFinite 1, FFinite 2, FFinite 3, FFinite 4]\<rparr>],
          alphas = [[FFinite 11, FFinite 20]]\<rparr> \<and>
   Strategy_NumVariables
     \<lparr>Ps = [\<lparr>rows = 2, cols = 2, coeffs = [FFinite 1, FFinite 2, FFinite 3, FFinite 4]\<rparr>],
      alphas = [[FFinite 11, FFinite 20]]\<rparr> = Inr 6"
proof -
  let ?s = "\<lparr>Ps = [\<lparr>rows = 1, cols = 2, coeffs = [FFinite 0, FFinite 0]\<rparr>,
                \<lparr>rows = 1, cols = 2, coeffs = [FFinite 0, FFinite 0]\<rparr>],
          alphas = [[FFinite 0], [FFinite 0]]\<rparr>"
  let ?p = "[FFinite 1, FFinite 2, FFinite 3, FFinite 4, FFinite 5, FFinite 6]"
  let ?r = "\<lparr>ref_Ps = [\<lparr>data = 0, m_rows = 2, m_cols = 2\<rparr>],
             ref_alphas = [\<lparr>start = 4, len = 2\<rparr>]\<rparr>"
  let ?op = "\<lparr>xs = [[FFinite 1, FFinite 1]], us = [[[FFinite 10, FFinite 20]]]\<rparr>"
  let ?s' = "\<lparr>Ps = [\<lparr>rows = 2, cols = 2, coeffs = [FFinite 1, FFinite 2, FFinite 3, FFinite 4]\<rparr>],
          alphas = [[FFinite 11, FFinite 20]]\<rparr>"
  have c1: "Strategy_ctor 2 2 1 = Inr ?s"
    by code_simp
  have c2: "StrategyRef_ctor 1 2 2 ?p 0 = Inr ?r"
    by code_simp
  have c3: "Strategy_of_ref ?p ?r ?op 0 = Inr ?s'"
    by (simp add: Strategy_of_ref_def Strategy_of_ref_loop.simps [of 0]
        Strategy_of_ref_loop.simps [of "Suc 0"]
        Strategy_of_ref_body_def andThen_def elem_at_def read_Map_def read_Ref_def
        vec_add_def vec_sub_def mat_vec_def row_dot_def coeff_def MatrixXf_default_def upt_rec
        fp_arith round32_numeral round32_0 round32_1)
  note n1 = NumVariables_count [where h = 2 and xdim = 2 and udim = 1 and s = ?s
      and primals = ?p and ?i0.0 = 0 and r = ?r
      and primals' = ?p and r' = ?r and op = ?op and i = 0 and s' = ?s']
  note n2 = NumVariables_count [where h = 1 and xdim = 2 and udim = 2 and s = ?s
      and primals = ?p and ?i0.0 = 0 and r = ?r
      and primals' = ?p and r' = ?r and op = ?op and i = 0 and s' = ?s']
  from n1 c1 have "\<exists>n. Strategy_NumVariables ?s = Inr n \<and> int n = 6"
    by simp
  then have a: "Strategy_NumVariables ?s = Inr 6"
    by auto
  from n2 c2 have "\<exists>n. StrategyRef_NumVariables ?r = Inr n \<and> int n = 6"
    by simp
  then have b: "StrategyRef_NumVariables ?r = Inr 6"
    by auto
  from n1 c3 b have c: "Strategy_NumVariables ?s' = Inr 6"
    by simp
  from a b c c1 c2 c3 show ?thesis
    by simp
qed

text \<open>
  Claim C8. \<open>NumVariables()\<close> of a Strategy and of a StrategyRef is defined only for a
  horizon of at least 1: it returns a number exactly when the two sequences have the same
  length and are not empty, and on the empty object it reads \<open>front()\<close> of an empty
  vector. For an object built by one of the constructors the two sequences have the
  length of the horizon, so that \<open>CHECK_EQ\<close> never fails.
\<close>

theorem NumVariables_precondition:
  "((\<exists>n. Strategy_NumVariables s = Inr n) \<longleftrightarrow>
      length (Ps s) = length (alphas s) \<and> 1 \<le> length (Ps s)) \<and>
   ((\<exists>n. StrategyRef_NumVariables r = Inr n) \<longleftrightarrow>
      length (ref_Ps r) = length (ref_alphas r) \<and> 1 \<le> length (ref_Ps r)) \<and>
   (Strategy_ctor h xdim udim = Inr s1 \<longrightarrow>
      length (Ps s1) = h \<and> length (alphas s1) = h \<and>
      Strategy_NumVariables s1 \<noteq> Inl CheckFailed \<and>
      (h = 0 \<longrightarrow> Strategy_NumVariables s1 = Inl OutOfRange)) \<and>
   (StrategyRef_ctor h' xdim' udim' primals i0 = Inr r1 \<longrightarrow>
      length (ref_Ps r1) = h' \<and> length (ref_alphas r1) = h' \<and>
      StrategyRef_NumVariables r1 \<noteq> Inl CheckFailed \<and>
      (h' = 0 \<longrightarrow> StrategyRef_NumVariables r1 = Inl OutOfRange) \<and>
      (Strategy_of_ref primals' r1 op i = Inr s2 \<longrightarrow>
         length (Ps s2) = h' \<and> length (alphas s2) = h' \<and>
         Strategy_NumVariables s2 \<noteq> Inl CheckFailed \<and>
         (h' = 0 \<longrightarrow> Strategy_NumVariables s2 = Inl OutOfRange)))"
proof -
  have S: "length (Ps z) = n \<and> length (alphas z) = n \<and>
      Strategy_NumVariables z \<noteq> Inl CheckFailed \<and>
      (n = 0 \<longrightarrow> Strategy_NumVariables z = Inl OutOfRange)"
    if "length (Ps z) = n" "length (alphas z) = n" for z n
    using that by (cases "Ps z"; cases "alphas z") (auto simp: Strategy_NumVariables_def)
  have R: "length (ref_Ps z) = n \<and> length (ref_alphas z) = n \<and>
      StrategyRef_NumVariables z \<noteq> Inl CheckFailed \<and>
      (n = 0 \<longrightarrow> StrategyRef_NumVariables z = Inl OutOfRange)"
    if "length (ref_Ps z) = n" "length (ref_alphas z) = n" for z n
    using that by (cases "ref_Ps z"; cases "ref_alphas z") (auto simp: StrategyRef_NumVariables_def)
  have c1: "length (Ps s1) = h \<and> length (alphas s1) = h"
    if "Strategy_ctor h xdim udim = Inr s1"
    using that by (auto simp: Strategy_ctor_closed split: if_splits)
  have c2: "length (ref_Ps r1) = h' \<and> length (ref_alphas r1) = h'"
    if "StrategyRef_ctor h' xdim' udim' primals i0 = Inr r1"
    using StrategyRef_ctor_Inr(1,2) [OF that] by simp
  have c3: "length (Ps s2) = h' \<and> length (alphas s2) = h'"
    if "StrategyRef_ctor h' xdim' udim' primals i0 = Inr r1"
      and "Strategy_of_ref primals' r1 op i = Inr s2"
    using c2 [OF that(1)] Strategy_of_ref_Inr(1,2) [OF that(2)] by simp
  show ?thesis
    using Strategy_NumVariables_Inr_iff [of s] StrategyRef_NumVariables_Inr_iff [of r]
      S [of s1 h] R [of r1 h'] S [of s2 h'] c1 c2 c3
    by blast
qed

theorem NumVariables_precondition_witness:
  "Strategy_ctor 0 2 1 = Inr (\<lparr>Ps = [], alphas = []\<rparr> :: fpval Strategy) \<and>
   Strategy_NumVariables (\<lparr>Ps = [], alphas = []\<rparr> :: fpval Strategy) = Inl OutOfRange \<and>
   StrategyRef_ctor 0 2 1 ([] :: fpval list) 0 = Inr \<lparr>ref_Ps = [], ref_alphas = []\<rparr> \<and>
   StrategyRef_NumVariables \<lparr>ref_Ps = [], ref_alphas = []\<rparr> = Inl OutOfRange \<and>
   Strategy_of_ref ([] :: fpval list) \<lparr>ref_Ps = [], ref_alphas = []\<rparr> \<lparr>xs = [], us = []\<rparr> 0 =
     Inr \<lparr>Ps = [], alphas = []\<rparr> \<and>
   Strategy_ctor 1 2 1 =
     Inr \<lparr>Ps = [\<lparr>rows = 1, cols = 2, coeffs = [FFinite 0, FFinite 0]\<rparr>],
          alphas = [[FFinite 0]]\<rparr> \<and>
   Strategy_NumVariables
     \<lparr>Ps = [\<lparr>rows = 1, cols = 2, coeffs = [FFinite 0, FFinite 0]\<rparr>], alphas = [[FFinite 0]]\<rparr> \<noteq>
     Inl CheckFailed \<and>
   (\<exists>n. Strategy_NumVariables
     \<lparr>Ps = [\<lparr>rows = 1, cols = 2, coeffs = [FFinite 0, FFinite 0]\<rparr>], alphas = [[FFinite 0]]\<rparr> =
     Inr n)"
proof -
  let ?e = "\<lparr>Ps = [], alphas = []\<rparr> :: fpval Strategy"
  let ?re = "\<lparr>ref_Ps = [], ref_alphas = []\<rparr>"
  let ?ope = "\<lparr>xs = [], us = []\<rparr> :: fpval OperatingPointRef"
  let ?s = "\<lparr>Ps = [\<lparr>rows = 1, cols = 2, coeffs = [FFinite 0, FFinite 0]\<rparr>],
             alphas = [[FFinite 0]]\<rparr>"
  have c1: "Strategy_ctor 0 2 1 = Inr ?e"
    by code_simp
  have c2: "StrategyRef_ctor 0 2 1 ([] :: fpval list) 0 = Inr ?re"
    by code_simp
  have c3: "Strategy_of_ref ([] :: fpval list) ?re ?ope 0 = Inr ?e"
    by (simp add: Strategy_of_ref_def Strategy_of_ref_loop.simps [of 0])
  have c4: "Strategy_ctor 1 2 1 = Inr ?s"
    by code_simp
  note w0 = NumVariables_precondition [where s = ?s and r = ?re and h = 0 and xdim = 2
      and udim = 1 and ?s1.0 = ?e and h' = 0 and xdim' = 2 and udim' = 1
      and primals = "[] :: fpval list"
      and ?i0.0 = 0 and ?r1.0 = ?re and primals' = "[] :: fpval list" and op = ?ope and i = 0
      and ?s2.0 = ?e]
  note w1 = NumVariables_precondition [where s = ?s and r = ?re and h = 1 and xdim = 2
      and udim = 1 and ?s1.0 = ?s and h' = 0 and xdim' = 2 and udim' = 1
      and primals = "[] :: fpval list"
      and ?i0.0 = 0 and ?r1.0 = ?re and primals' = "[] :: fpval list" and op = ?ope and i = 0
      and ?s2.0 = ?e]
  from w0 c1 c2 c3 have a: "Strategy_NumVariables ?e = Inl OutOfRange"
    "StrategyRef_NumVariables ?re = Inl OutOfRange"
    by simp_all
  from w1 c4 have b: "Strategy_NumVariables ?s \<noteq> Inl CheckFailed"
    "\<exists>n. Strategy_NumVariables ?s = Inr n"
    by simp_all
  from a b c1 c2 c3 c4 show ?thesis
    by simp
qed

text \<open>
  The shapes the three constructors produce. The Strategy of the 3-argument constructor
  has gains of \<open>udim\<close> rows and \<open>xdim\<close> columns; the views of a StrategyRef have
  \<open>xdim\<close> rows and \<open>udim\<close> columns, the arguments of \<open>Map\<close> being given in that order;
  the Strategy built from a view has the shapes of the view, and is built only where
  they fit the operating point.
\<close>

lemma Strategy_ctor_shape:
  assumes "Strategy_ctor h xdim udim = Inr s" and "t < h"
  shows "length (Ps s) = h \<and> length (alphas s) = h \<and>
    rows (Ps s ! t) = nat udim \<and> cols (Ps s ! t) = nat xdim \<and>
    length (alphas s ! t) = nat udim"
  using Strategy_ctor_Inr [OF assms] by simp

lemma StrategyRef_ctor_shape:
  assumes "StrategyRef_ctor h xdim udim primals i0 = Inr r" and "t < h"
  shows "length (ref_Ps r) = h \<and> length (ref_alphas r) = h \<and>
    m_rows (ref_Ps r ! t) = nat xdim \<and> m_cols (ref_Ps r ! t) = nat udim \<and>
    len (ref_alphas r ! t) = nat udim"
  using StrategyRef_ctor_Inr(1,2) [OF assms(1)] assms(2) by simp

lemma Strategy_of_ref_shape:
  assumes "Strategy_of_ref primals r op i = Inr s" and "t < length (ref_Ps r)"
  shows "rows (Ps s ! t) = m_rows (ref_Ps r ! t) \<and> cols (Ps s ! t) = m_cols (ref_Ps r ! t) \<and>
    length (alphas s ! t) = len (ref_alphas r ! t) \<and>
    m_rows (ref_Ps r ! t) = len (ref_alphas r ! t) \<and>
    m_cols (ref_Ps r ! t) = length (xs op ! t)"
proof -
  note body = Strategy_of_ref_body_Inr [OF Strategy_of_ref_Inr(3) [OF assms]]
  from body(8) obtain alpha where
    alpha: "read_Ref primals (ref_alphas r ! t) = Inr alpha"
    and r: "rows (Ps s ! t) = length alpha"
    and a: "alphas s ! t = map (\<lambda>k. alpha ! k + us op ! t ! i ! k -
               row_dot (Ps s ! t) (xs op ! t) k) [0..<length alpha]"
    by blast
  have "length (alphas s ! t) = length alpha"
    by (subst a) simp
  with read_Map_shape [OF body(2)] read_Ref_length [OF alpha] r body(7)
  show ?thesis by simp
qed

text \<open>
  Claim C3. Every strategy object of horizon \<open>h \<ge> 1\<close> is claimed to have \<open>h\<close> gains of
  \<open>udim\<close> rows and \<open>xdim\<close> columns and \<open>h\<close> feedforward terms of length \<open>udim\<close>. The
  code at \<open>h = 1\<close>, \<open>xdim = 2\<close>, \<open>udim = 1\<close> over a buffer of three entries: the gain of
  the StrategyRef has 2 rows and 1 column, its own \<open>operator()\<close> aborts on a state of
  length 2 and so does the constructor of a Strategy from it, while the 3-argument
  constructor of Strategy gives 1 row and 2 columns.
\<close>

theorem StrategyRef_gain_is_transposed:
  "StrategyRef_ctor 1 2 1 [FFinite 0, FFinite 0, FFinite 0] 0 =
     Inr \<lparr>ref_Ps = [\<lparr>data = 0, m_rows = 2, m_cols = 1\<rparr>],
          ref_alphas = [\<lparr>start = 2, len = 1\<rparr>]\<rparr> \<and>
   read_Map [FFinite 0, FFinite 0, FFinite 0] \<lparr>data = 0, m_rows = 2, m_cols = 1\<rparr> =
     Inr \<lparr>rows = 2, cols = 1, coeffs = [FFinite 0, FFinite 0]\<rparr> \<and>
   StrategyRef_call [FFinite 0, FFinite 0, FFinite 0]
     \<lparr>ref_Ps = [\<lparr>data = 0, m_rows = 2, m_cols = 1\<rparr>], ref_alphas = [\<lparr>start = 2, len = 1\<rparr>]\<rparr>
     0 [FFinite 0, FFinite 0] = Inl EigenAssertion \<and>
   Strategy_of_ref [FFinite 0, FFinite 0, FFinite 0]
     \<lparr>ref_Ps = [\<lparr>data = 0, m_rows = 2, m_cols = 1\<rparr>], ref_alphas = [\<lparr>start = 2, len = 1\<rparr>]\<rparr>
     \<lparr>xs = [[FFinite 0, FFinite 0]], us = [[[FFinite 0]]]\<rparr> 0 = Inl EigenAssertion \<and>
   Strategy_ctor 1 2 1 =
     Inr \<lparr>Ps = [\<lparr>rows = 1, cols = 2, coeffs = [FFinite 0, FFinite 0]\<rparr>],
          alphas = [[FFinite 0]]\<rparr>"
  by (simp add: StrategyRef_ctor_def StrategyRef_loop.simps [of 0]
      StrategyRef_loop.simps [of "Suc 0"] INT_MAX_def StrategyRef_call_def
      Strategy_of_ref_def Strategy_of_ref_loop.simps [of 0]
      Strategy_of_ref_body_def andThen_def elem_at_def read_Map_def read_Ref_def
      vec_add_def vec_sub_def mat_vec_def mat_neg_def MatrixXf_default_def
      Strategy_ctor_closed fp_arith round32_0 numeral_2_eq_2)

subsection \<open>The reachability example\<close>

lemma to_double_tenth: "to_double (1 / 10) = 3602879701896397 / 2 ^ 55"
proof -
  have "to_double (1 / 10) = of_int 7205759403792794 * 2 powr of_int (- 4 - int 53 + 1)"
    unfolding to_double_def
    by (rule round_fp_eqI) (simp_all add: round_to_even_def powr_neg_numeral)
  then show ?thesis by (simp add: powr_neg_numeral)
qed

lemma kTimeStep_value: "kTimeStep = 13421773 / 2 ^ 27"
proof -
  have "to_float (3602879701896397 / 2 ^ 55) = of_int 13421773 * 2 powr of_int (- 4 - int 24 + 1)"
    unfolding to_float_def
    by (rule round_fp_eqI) (simp_all add: round_to_even_def powr_neg_numeral)
  then show ?thesis by (simp add: kTimeStep_def to_double_tenth powr_neg_numeral)
qed

lemma to_double_2: "to_double 2 = 2"
proof -
  have "to_double 2 = of_int (2 ^ 52) * 2 powr of_int (1 - int 53 + 1)"
    unfolding to_double_def
    by (rule round_fp_eqI) (simp_all add: round_to_even_def powr_neg_numeral)
  then show ?thesis by (simp add: powr_neg_numeral)
qed

lemma to_float_2: "to_float 2 = 2"
proof -
  have "to_float 2 = of_int (2 ^ 23) * 2 powr of_int (1 - int 24 + 1)"
    unfolding to_float_def
    by (rule round_fp_eqI) (simp_all add: round_to_even_def powr_neg_numeral)
  then show ?thesis by (simp add: powr_neg_numeral)
qed

lemma to_double_half: "to_double (1 / 2) = 1 / 2"
proof -
  have "to_double (1 / 2) = of_int (2 ^ 52) * 2 powr of_int (- 1 - int 53 + 1)"
    unfolding to_double_def
    by (rule round_fp_eqI) (simp_all add: round_to_even_def powr_neg_numeral)
  then show ?thesis by (simp add: powr_neg_numeral)
qed

lemma to_float_half: "to_float (1 / 2) = 1 / 2"
proof -
  have "to_float (1 / 2) = of_int (2 ^ 23) * 2 powr of_int (- 1 - int 24 + 1)"
    unfolding to_float_def
    by (rule round_fp_eqI) (simp_all add: round_to_even_def powr_neg_numeral)
  then show ?thesis by (simp add: powr_neg_numeral)
qed

lemma kTimeHorizon_value: "kTimeHorizon = 2"
  by (simp add: kTimeHorizon_def to_double_2 to_float_2)

lemma quotient_rounds_to_20: "to_float (kTimeHorizon / kTimeStep) = 20"
proof -
  have "to_float (2 / (13421773 / 2 ^ 27)) = of_int 10485760 * 2 powr of_int (4 - int 24 + 1)"
    unfolding to_float_def
    by (rule round_fp_eqI) (simp_all add: round_to_even_def powr_neg_numeral)
  then show ?thesis by (simp add: kTimeHorizon_value kTimeStep_value powr_neg_numeral)
qed

lemma kNumTimeSteps_value: "kNumTimeSteps = Inr 20"
  by (simp add: kNumTimeSteps_def quotient_rounds_to_20 size_t_of_float_def)

lemma exact_quotient_below_20: "\<lfloor>kTimeHorizon / kTimeStep\<rfloor> = 19"
  by (simp add: kTimeHorizon_value kTimeStep_value)

lemma to_double_0: "to_double 0 = 0" and to_float_0: "to_float 0 = 0"
  by (simp_all add: to_double_def to_float_def round_fp_def)

lemma M_PI_value: "M_PI = 884279719003555 / 2 ^ 48"
proof -
  have "M_PI = of_int 7074237752028440 * 2 powr of_int (1 - int 53 + 1)"
    unfolding M_PI_def to_double_def
    by (rule round_fp_eqI) (simp_all add: round_to_even_def powr_neg_numeral)
  then show ?thesis by (simp add: powr_neg_numeral)
qed

lemma kP1InitialTheta_value: "kP1InitialTheta = - 13176795 / 2 ^ 22"
proof -
  have "to_float (- M_PI) = of_int (- 13176795) * 2 powr of_int (1 - int 24 + 1)"
    unfolding M_PI_value to_float_def
    by (rule round_fp_eqI) (simp_all add: round_to_even_def powr_neg_numeral)
  then show ?thesis by (simp add: kP1InitialTheta_def powr_neg_numeral)
qed

text \<open>
  The partial sums of the series of the arc tangent enclose it. With Machin's formula
  they place \<open>pi\<close> below the single-precision number \<open>13176795 / 2\<^sup>2\<^sup>2\<close> and less than
  half a unit in the last place away from it.
\<close>

lemma arctan_partial_sums:
  fixes x :: real
  assumes "0 \<le> x" and "x \<le> 1"
  shows "(\<Sum>k<2 * n. (- 1) ^ k * (1 / real (k * 2 + 1) * x ^ (k * 2 + 1))) \<le> arctan x"
    and "arctan x \<le> (\<Sum>k<2 * n + 1. (- 1) ^ k * (1 / real (k * 2 + 1) * x ^ (k * 2 + 1)))"
proof -
  let ?a = "\<lambda>k. 1 / real (k * 2 + 1) * x ^ (k * 2 + 1)"
  have abs: "\<bar>x\<bar> \<le> 1" using assms by simp
  have pos: "0 \<le> ?a k" for k
    using assms by simp
  have mono: "?a (Suc k) \<le> ?a k" for k
  proof (rule mult_mono)
    show "1 / real (Suc k * 2 + 1) \<le> 1 / real (k * 2 + 1)"
      by (simp add: field_simps)
    show "x ^ (Suc k * 2 + 1) \<le> x ^ (k * 2 + 1)"
      using assms by (intro power_decreasing) simp_all
  qed (use assms in simp_all)
  note L = summable_Leibniz' [OF zeroseq_arctan_series [OF abs] pos mono]
  show "(\<Sum>k<2 * n. (- 1) ^ k * ?a k) \<le> arctan x"
    using L(2) [of n] by (simp add: arctan_series [OF abs])
  show "arctan x \<le> (\<Sum>k<2 * n + 1. (- 1) ^ k * ?a k)"
    using L(4) [of n] by (simp add: arctan_series [OF abs])
qed

lemma pi_lower: "26353589 / 2 ^ 23 < pi"
proof -
  have a: "(\<Sum>k<2 * 3. (- 1) ^ k * (1 / real (k * 2 + 1) * (1 / 5) ^ (k * 2 + 1))) \<le> arctan (1 / 5)"
    by (rule arctan_partial_sums) simp_all
  have b: "arctan (1 / 239) \<le>
      (\<Sum>k<2 * 1 + 1. (- 1) ^ k * (1 / real (k * 2 + 1) * (1 / 239) ^ (k * 2 + 1)))"
    by (rule arctan_partial_sums) simp_all
  have "pi = 16 * arctan (1 / 5) - 4 * arctan (1 / 239)"
    using machin by simp
  with a b show ?thesis
    by (simp add: eval_nat_numeral)
qed

lemma pi_upper: "pi < 13176795 / 2 ^ 22"
proof -
  have a: "arctan (1 / 5) \<le>
      (\<Sum>k<2 * 2 + 1. (- 1) ^ k * (1 / real (k * 2 + 1) * (1 / 5) ^ (k * 2 + 1)))"
    by (rule arctan_partial_sums) simp_all
  have b: "(\<Sum>k<2 * 1. (- 1) ^ k * (1 / real (k * 2 + 1) * (1 / 239) ^ (k * 2 + 1)))
      \<le> arctan (1 / 239)"
    by (rule arctan_partial_sums) simp_all
  have "pi = 16 * arctan (1 / 5) - 4 * arctan (1 / 239)"
    using machin by simp
  with a b show ?thesis
    by (simp add: eval_nat_numeral)
qed

lemma kP1InitialTheta_nearest: "\<bar>kP1InitialTheta - (- pi)\<bar> < 2 powr (- 23)"
  using pi_lower pi_upper by (simp add: kP1InitialTheta_value powr_neg_numeral abs_if)

lemma kTimeStep_nearest: "\<bar>kTimeStep - 1 / 10\<bar> < 2 powr (- 28)"
  by (simp add: kTimeStep_value powr_neg_numeral abs_if)

lemma goal_value: "goal = \<lparr>center = (0, 0), radius = 1 / 2\<rparr>"
  by (simp add: goal_def kP1GoalX_def kP1GoalY_def kTargetRadius_def to_double_0 to_float_0
      to_double_half to_float_half)

lemma set_coeff_Inr:
  "0 \<le> i \<Longrightarrow> i < int (length v) \<Longrightarrow> set_coeff v i a = Inr (v[nat i := a])"
  by (simp add: set_coeff_def)

lemma initial_state_Inr:
  assumes "0 \<le> px" "px < XDim" "0 \<le> py" "py < XDim" "0 \<le> th" "th < XDim"
    "0 \<le> om" "om < XDim"
  shows "initial_state XDim px py th om =
    Inr ((replicate (nat XDim) 0)[nat px := kP1InitialX, nat py := kP1InitialY,
          nat th := kP1InitialTheta, nat om := kP1InitialOmega])"
  using assms by (simp add: initial_state_def VectorXf_Zero_def andThen_def set_coeff_def)

text \<open>
  Claim C7. The one-player reachability example is the scenario of the specification.
  \<open>kNumTimeSteps\<close>, the quotient of \<open>kTimeHorizon = 2.0\<close> and \<open>kTimeStep = 0.1\<close> in single
  precision converted to \<open>size_t\<close>, is exactly 20: the quotient of the two numbers lies
  between 19 and 20 and rounds to \<open>20.0f\<close> before the fraction is dropped. The initial state has \<open>x = 2\<close>, \<open>y = 2\<close>, \<open>omega = 0\<close> and for
  \<open>theta\<close> the constant \<open>kP1InitialTheta\<close>, which is \<open>-pi\<close> in single precision (less than
  half a unit in the last place from it); the indices of the four coordinates, which the
  sources do not give, are taken distinct and inside the state. The goal is the circle
  of centre \<open>(0, 0)\<close> and radius \<open>0.5\<close>.
\<close>

theorem reachability_example_scenario:
  assumes "0 \<le> kPxIdx" "kPxIdx < XDim" "0 \<le> kPyIdx" "kPyIdx < XDim"
    "0 \<le> kThetaIdx" "kThetaIdx < XDim" "0 \<le> kOmegaIdx" "kOmegaIdx < XDim"
    and "distinct [kPxIdx, kPyIdx, kThetaIdx, kOmegaIdx]"
  shows "kTimeHorizon = 2 \<and> \<bar>kTimeStep - 1 / 10\<bar> < 2 powr (- 28) \<and>
    \<lfloor>kTimeHorizon / kTimeStep\<rfloor> = 19 \<and>
    to_float (kTimeHorizon / kTimeStep) = 20 \<and> kNumTimeSteps = Inr 20 \<and>
    (\<exists>x0. initial_state XDim kPxIdx kPyIdx kThetaIdx kOmegaIdx = Inr x0 \<and>
       length x0 = nat XDim \<and> x0 ! nat kPxIdx = 2 \<and> x0 ! nat kPyIdx = 2 \<and>
       x0 ! nat kThetaIdx = kP1InitialTheta \<and> x0 ! nat kOmegaIdx = 0) \<and>
    \<bar>kP1InitialTheta - (- pi)\<bar> < 2 powr (- 23) \<and>
    goal = \<lparr>center = (0, 0), radius = 1 / 2\<rparr>"
proof -
  let ?x0 = "(replicate (nat XDim) 0)[nat kPxIdx := kP1InitialX, nat kPyIdx := kP1InitialY,
          nat kThetaIdx := kP1InitialTheta, nat kOmegaIdx := kP1InitialOmega]"
  have i: "initial_state XDim kPxIdx kPyIdx kThetaIdx kOmegaIdx = Inr ?x0"
    using assms(1-8) by (rule initial_state_Inr)
  have n: "nat kPxIdx < nat XDim" "nat kPyIdx < nat XDim" "nat kThetaIdx < nat XDim"
    "nat kOmegaIdx < nat XDim"
    using assms(1-8) by simp_all
  have d: "nat kPxIdx \<noteq> nat kPyIdx" "nat kPxIdx \<noteq> nat kThetaIdx" "nat kPxIdx \<noteq> nat kOmegaIdx"
    "nat kPyIdx \<noteq> nat kThetaIdx" "nat kPyIdx \<noteq> nat kOmegaIdx" "nat kThetaIdx \<noteq> nat kOmegaIdx"
    using assms by (simp_all add: eq_nat_nat_iff)
  have v: "kP1InitialX = 2" "kP1InitialY = 2" "kP1InitialOmega = 0"
    by (simp_all add: kP1InitialX_def kP1InitialY_def kP1InitialOmega_def
        to_double_2 to_float_2 to_double_0 to_float_0)
  have x: "length ?x0 = nat XDim" "?x0 ! nat kPxIdx = 2" "?x0 ! nat kPyIdx = 2"
    "?x0 ! nat kThetaIdx = kP1InitialTheta" "?x0 ! nat kOmegaIdx = 0"
    using n d by (simp_all add: v nth_list_update)
  from i x have "\<exists>x0. initial_state XDim kPxIdx kPyIdx kThetaIdx kOmegaIdx = Inr x0 \<and>
       length x0 = nat XDim \<and> x0 ! nat kPxIdx = 2 \<and> x0 ! nat kPyIdx = 2 \<and>
       x0 ! nat kThetaIdx = kP1InitialTheta \<and> x0 ! nat kOmegaIdx = 0"
    by blast
  with kTimeHorizon_value kTimeStep_nearest exact_quotient_below_20 quotient_rounds_to_20
    kNumTimeSteps_value kP1InitialTheta_nearest goal_value
  show ?thesis by blast
qed

theorem reachability_example_scenario_witness:
  "kNumTimeSteps = Inr 20 \<and>
   initial_state 4 0 1 2 3 = Inr [2, 2, - 13176795 / 2 ^ 22, 0] \<and>
   goal = \<lparr>center = (0, 0), radius = 1 / 2\<rparr>"
proof -
  have i: "initial_state 4 0 1 2 3 = Inr [2, 2, - 13176795 / 2 ^ 22, 0]"
    by (simp add: initial_state_Inr kP1InitialTheta_value kP1InitialX_def kP1InitialY_def
        kP1InitialOmega_def to_double_2 to_float_2 to_double_0 to_float_0 eval_nat_numeral)
  have p: "(0 :: int) \<le> 0" "(0 :: int) < 4" "(0 :: int) \<le> 1" "(1 :: int) < 4"
    "(0 :: int) \<le> 2" "(2 :: int) < 4" "(0 :: int) \<le> 3" "(3 :: int) < 4"
    "distinct [0, 1, 2, 3 :: int]"
    by simp_all
  have "kNumTimeSteps = Inr 20 \<and> goal = \<lparr>center = (0, 0), radius = 1 / 2\<rparr>"
    using reachability_example_scenario [OF p] by blast
  with i show ?thesis
    by blast
qed

end
